theory Spec2Isabelle
  imports Complex_Main
begin

section \<open>Shared JavaScript vocabulary\<close>

text \<open>
  A JavaScript call either returns a value or throws. The thrown value is kept as the
  text of its message.
\<close>

datatype 'a completion = Return 'a | Throw string

text \<open>
  A JavaScript number that the wrapper only passes on (degrees, aspect ratio, quality):
  a value or the not-a-number element, which \<open>setAspectRatio\<close> documents as "free crop".
\<close>

datatype js_number = Num real | NaN

section \<open>CropperManager (src/unnamed/part\_000)\<close>

subsection \<open>The Cropper.js library as an external collaborator\<close>

text \<open>
  Cropper.js is third-party code. An instance is represented by the list of method calls
  the manager has made on it so far (oldest first). What the library answers is a
  parameter of the model: for each call on an instance with a given history it either
  replies with a value of the library's own (type \<open>'v\<close>) or raises.
\<close>

type_synonym element = string

datatype lib_call =
    LibDestroy
  | LibGetData bool
  | LibGetCanvasData
  | LibGetCropBoxData
  | LibRotate js_number
  | LibScaleX int
  | LibScaleY int
  | LibReset
  | LibSetAspectRatio js_number
  | LibGetCroppedCanvas
  | LibReplace string

datatype 'v lib_reply = Reply 'v | Raises string

record 'v library =
  construct :: "element \<Rightarrow> bool"
  respond :: "lib_call list \<Rightarrow> lib_call \<Rightarrow> 'v lib_reply"
  toBlob :: "'v \<Rightarrow> string \<Rightarrow> js_number \<Rightarrow> 'v option lib_reply"

text \<open>
  \<open>construct L img\<close> says whether \<open>new Cropper(img, options)\<close> returns normally.
  \<open>toBlob L canvas type quality\<close> is the outcome of \<open>canvas.toBlob(callback, type, quality)\<close>:
  it raises (the canvas is not an object with that method), or it calls back with a blob
  (\<open>Some\<close>) or with null (\<open>None\<close>).
\<close>

subsection \<open>The module's private state\<close>

text \<open>
  The closure variables \<open>cropper\<close>, \<open>imageEl\<close>, \<open>scaleX\<close>, \<open>scaleY\<close>. \<open>None\<close> is
  JavaScript's null. The two scales are numbers that only ever hold the initial 1 and its
  negations, so they are integers here.
\<close>

record manager =
  cropper :: "lib_call list option"
  imageEl :: "element option"
  scaleX :: int
  scaleY :: int

definition initial :: manager where
  "initial = \<lparr>cropper = None, imageEl = None, scaleX = 1, scaleY = 1\<rparr>"

text \<open>What a manager function hands back to its caller.\<close>

datatype 'v js_result = Null | Undefined | FromLibrary 'v | Instance "lib_call list"

datatype 'v promise = Resolved 'v | Rejected string

subsection \<open>Calling a method of the live instance\<close>

text \<open>
  \<open>query\<close> is \<open>return cropper.m(args)\<close>; \<open>command\<close> is the statement \<open>cropper.m(args);\<close>
  at the end of a function, whose value is dropped. Both record the call on the instance.
\<close>

definition query :: "'v library \<Rightarrow> lib_call \<Rightarrow> lib_call list \<Rightarrow> manager
    \<Rightarrow> 'v js_result completion \<times> manager" where
  "query L c cs s =
     (case respond L cs c of
        Reply v \<Rightarrow> (Return (FromLibrary v), s\<lparr>cropper := Some (cs @ [c])\<rparr>)
      | Raises e \<Rightarrow> (Throw e, s\<lparr>cropper := Some (cs @ [c])\<rparr>))"

definition command :: "'v library \<Rightarrow> lib_call \<Rightarrow> lib_call list \<Rightarrow> manager
    \<Rightarrow> 'v js_result completion \<times> manager" where
  "command L c cs s =
     (case respond L cs c of
        Reply v \<Rightarrow> (Return Undefined, s\<lparr>cropper := Some (cs @ [c])\<rparr>)
      | Raises e \<Rightarrow> (Throw e, s\<lparr>cropper := Some (cs @ [c])\<rparr>))"

subsection \<open>The functions of the module\<close>

text \<open>
  \<open>destroy\<close>: if an instance is live, call its \<open>destroy\<close> and set \<open>cropper\<close> to null;
  then set \<open>imageEl\<close> to null. When the library call raises, the two assignments after
  it do not happen.
\<close>

definition destroy :: "'v library \<Rightarrow> manager \<Rightarrow> 'v js_result completion \<times> manager" where
  "destroy L s =
     (case cropper s of
        None \<Rightarrow> (Return Undefined, s\<lparr>imageEl := None\<rparr>)
      | Some cs \<Rightarrow>
          (case respond L cs LibDestroy of
             Reply v \<Rightarrow> (Return Undefined, s\<lparr>cropper := None, imageEl := None\<rparr>)
           | Raises e \<Rightarrow> (Throw e, s\<lparr>cropper := Some (cs @ [LibDestroy])\<rparr>)))"

text \<open>
  \<open>init\<close>: destroy any existing instance, remember the image, set both scales to 1,
  construct the instance and return it. The \<open>ready\<close> and \<open>crop\<close> options are callbacks
  the library runs later; they do not touch the module's state.
\<close>

definition init :: "'v library \<Rightarrow> element \<Rightarrow> manager \<Rightarrow> 'v js_result completion \<times> manager" where
  "init L img s =
     (case destroy L s of
        (Throw e, s1) \<Rightarrow> (Throw e, s1)
      | (Return u, s1) \<Rightarrow>
          (let s2 = s1\<lparr>imageEl := Some img, scaleX := 1, scaleY := 1\<rparr>
           in if construct L img
              then (Return (Instance []), s2\<lparr>cropper := Some []\<rparr>)
              else (Throw ''Cropper constructor failed'', s2)))"

definition getData :: "'v library \<Rightarrow> bool \<Rightarrow> manager \<Rightarrow> 'v js_result completion \<times> manager" where
  "getData L rounded s =
     (case cropper s of
        None \<Rightarrow> (Return Null, s)
      | Some cs \<Rightarrow> query L (LibGetData rounded) cs s)"

definition getCanvasData :: "'v library \<Rightarrow> manager \<Rightarrow> 'v js_result completion \<times> manager" where
  "getCanvasData L s =
     (case cropper s of
        None \<Rightarrow> (Return Null, s)
      | Some cs \<Rightarrow> query L LibGetCanvasData cs s)"

definition getCropBoxData :: "'v library \<Rightarrow> manager \<Rightarrow> 'v js_result completion \<times> manager" where
  "getCropBoxData L s =
     (case cropper s of
        None \<Rightarrow> (Return Null, s)
      | Some cs \<Rightarrow> query L LibGetCropBoxData cs s)"

definition rotate :: "'v library \<Rightarrow> js_number \<Rightarrow> manager \<Rightarrow> 'v js_result completion \<times> manager" where
  "rotate L degrees s =
     (case cropper s of
        None \<Rightarrow> (Return Undefined, s)
      | Some cs \<Rightarrow> command L (LibRotate degrees) cs s)"

definition flipHorizontal :: "'v library \<Rightarrow> manager \<Rightarrow> 'v js_result completion \<times> manager" where
  "flipHorizontal L s =
     (case cropper s of
        None \<Rightarrow> (Return Undefined, s)
      | Some cs \<Rightarrow>
          (let s1 = s\<lparr>scaleX := - scaleX s\<rparr>
           in command L (LibScaleX (scaleX s1)) cs s1))"

definition flipVertical :: "'v library \<Rightarrow> manager \<Rightarrow> 'v js_result completion \<times> manager" where
  "flipVertical L s =
     (case cropper s of
        None \<Rightarrow> (Return Undefined, s)
      | Some cs \<Rightarrow>
          (let s1 = s\<lparr>scaleY := - scaleY s\<rparr>
           in command L (LibScaleY (scaleY s1)) cs s1))"

definition reset :: "'v library \<Rightarrow> manager \<Rightarrow> 'v js_result completion \<times> manager" where
  "reset L s =
     (case cropper s of
        None \<Rightarrow> (Return Undefined, s)
      | Some cs \<Rightarrow>
          (let s1 = s\<lparr>scaleX := 1, scaleY := 1\<rparr>
           in command L LibReset cs s1))"

definition setAspectRatio :: "'v library \<Rightarrow> js_number \<Rightarrow> manager
    \<Rightarrow> 'v js_result completion \<times> manager" where
  "setAspectRatio L ratio s =
     (case cropper s of
        None \<Rightarrow> (Return Undefined, s)
      | Some cs \<Rightarrow> command L (LibSetAspectRatio ratio) cs s)"

text \<open>
  \<open>getCroppedBlob\<close> returns \<open>new Promise(executor)\<close>. The executor runs at once; an
  exception inside it rejects the promise instead of leaving the function. The promise is
  given in its settled form: rejected at once when no instance is live, otherwise settled
  by the callback of \<open>toBlob\<close>.
\<close>

definition getCroppedBlob :: "'v library \<Rightarrow> string \<Rightarrow> js_number \<Rightarrow> manager
    \<Rightarrow> 'v promise completion \<times> manager" where
  "getCroppedBlob L type quality s =
     (case cropper s of
        None \<Rightarrow> (Return (Rejected ''No active cropper instance.''), s)
      | Some cs \<Rightarrow>
          (let s1 = s\<lparr>cropper := Some (cs @ [LibGetCroppedCanvas])\<rparr>
           in case respond L cs LibGetCroppedCanvas of
                Raises e \<Rightarrow> (Return (Rejected e), s1)
              | Reply canvas \<Rightarrow>
                  (case toBlob L canvas type quality of
                     Raises e \<Rightarrow> (Return (Rejected e), s1)
                   | Reply None \<Rightarrow> (Return (Rejected ''Canvas toBlob failed.''), s1)
                   | Reply (Some blob) \<Rightarrow> (Return (Resolved blob), s1))))"

definition replace :: "'v library \<Rightarrow> string \<Rightarrow> manager \<Rightarrow> 'v js_result completion \<times> manager" where
  "replace L url s =
     (case cropper s of
        None \<Rightarrow> (Return Undefined, s)
      | Some cs \<Rightarrow> command L (LibReplace url) cs s)"

definition isActive :: "manager \<Rightarrow> bool" where
  "isActive s = (cropper s \<noteq> None)"

subsection \<open>Sequences of calls on the module\<close>

datatype op =
    Init element
  | Destroy
  | GetData bool
  | GetCanvasData
  | GetCropBoxData
  | Rotate js_number
  | FlipHorizontal
  | FlipVertical
  | Reset
  | SetAspectRatio js_number
  | GetCroppedBlob string js_number
  | Replace string
  | IsActive

fun step :: "'v library \<Rightarrow> manager \<Rightarrow> op \<Rightarrow> manager" where
  "step L s (Init img) = snd (init L img s)"
| "step L s Destroy = snd (destroy L s)"
| "step L s (GetData r) = snd (getData L r s)"
| "step L s GetCanvasData = snd (getCanvasData L s)"
| "step L s GetCropBoxData = snd (getCropBoxData L s)"
| "step L s (Rotate d) = snd (rotate L d s)"
| "step L s FlipHorizontal = snd (flipHorizontal L s)"
| "step L s FlipVertical = snd (flipVertical L s)"
| "step L s Reset = snd (reset L s)"
| "step L s (SetAspectRatio r) = snd (setAspectRatio L r s)"
| "step L s (GetCroppedBlob t q) = snd (getCroppedBlob L t q s)"
| "step L s (Replace url) = snd (replace L url s)"
| "step L s IsActive = s"

definition run :: "'v library \<Rightarrow> op list \<Rightarrow> manager" where
  "run L ops = foldl (step L) initial ops"

definition unit_scale :: "int \<Rightarrow> bool" where
  "unit_scale k = (k = 1 \<or> k = - 1)"

section \<open>Overlays (src/static/js/overlays.js)\<close>

subsection \<open>Numbers, text and the stroke colour\<close>

text \<open>
  Widths and heights are JavaScript numbers. The arithmetic of the overlay functions is
  done here over the reals, and the conversion of a number to its text inside a template
  literal is a parameter (\<open>number_text\<close>): the digits an overlay prints are outside the
  model, the markup around them is exact. Where JavaScript's division gives an infinity
  or not-a-number the digits differ too; no arithmetic on numbers throws.
  \<open>stroke_color\<close> is the module variable \<open>STROKE_COLOR\<close>, which \<open>setColor\<close> may have
  changed. The last parameter of \<open>line\<close> defaults to \<open>STROKE_WIDTH\<close> in the source; a
  call that leaves it out passes \<open>STROKE_WIDTH\<close> here.
\<close>

record env =
  number_text :: "real \<Rightarrow> string"
  stroke_color :: string

definition STROKE_WIDTH :: real where
  "STROKE_WIDTH = 1.5"

definition phi :: real where
  "phi = 1.618033988749895"

definition line :: "env \<Rightarrow> real \<Rightarrow> real \<Rightarrow> real \<Rightarrow> real \<Rightarrow> real \<Rightarrow> string" where
  \<open>line E x1 y1 x2 y2 sw =
     ''<line x1="'' @ number_text E x1 @ ''" y1="'' @ number_text E y1
     @ ''" x2="'' @ number_text E x2 @ ''" y2="'' @ number_text E y2
     @ ''" stroke="'' @ stroke_color E
     @ ''" stroke-width="'' @ number_text E sw @ ''" />''\<close>

definition circle :: "env \<Rightarrow> real \<Rightarrow> real \<Rightarrow> real \<Rightarrow> string" where
  \<open>circle E cx cy r =
     ''<circle cx="'' @ number_text E cx @ ''" cy="'' @ number_text E cy
     @ ''" r="'' @ number_text E r
     @ ''" fill="none" stroke="'' @ stroke_color E
     @ ''" stroke-width="'' @ number_text E STROKE_WIDTH @ ''" />''\<close>

subsection \<open>The ten overlay functions\<close>

definition ruleOfThirds :: "env \<Rightarrow> real \<Rightarrow> real \<Rightarrow> string" where
  \<open>ruleOfThirds E w h =
     (let x1 = w / 3; x2 = (2 * w) / 3; y1 = h / 3; y2 = (2 * h) / 3
      in ''<g class="overlay-rule-of-thirds">''
         @ line E x1 0 x1 h STROKE_WIDTH
         @ line E x2 0 x2 h STROKE_WIDTH
         @ line E 0 y1 w y1 STROKE_WIDTH
         @ line E 0 y2 w y2 STROKE_WIDTH
         @ concat (map (\<lambda>x. concat (map (\<lambda>y. circle E x y 4) [y1, y2])) [x1, x2])
         @ ''</g>'')\<close>

text \<open>
  In \<open>goldenSpiral\<close> the loop over eight segments only updates locals that are never
  read afterwards, so it contributes nothing to the result. The path is one template
  literal that spans seven source lines: each break is a line feed and twelve blanks.
\<close>

definition spiral_path :: "env \<Rightarrow> real \<Rightarrow> real \<Rightarrow> string" where
  \<open>spiral_path E w h =
     ''M '' @ number_text E (w * 0.975) @ '' '' @ number_text E (h * 0.025)
     @ [CHR 0x0A] @ ''            C '' @ number_text E (w * 0.975) @ '' '' @ number_text E (h * 0.55)
     @ '', '' @ number_text E (w * 0.72) @ '' '' @ number_text E (h * 0.975)
     @ '', '' @ number_text E (w * 0.38) @ '' '' @ number_text E (h * 0.975)
     @ [CHR 0x0A] @ ''            C '' @ number_text E (w * 0.15) @ '' '' @ number_text E (h * 0.975)
     @ '', '' @ number_text E (w * 0.025) @ '' '' @ number_text E (h * 0.78)
     @ '', '' @ number_text E (w * 0.025) @ '' '' @ number_text E (h * 0.58)
     @ [CHR 0x0A] @ ''            C '' @ number_text E (w * 0.025) @ '' '' @ number_text E (h * 0.42)
     @ '', '' @ number_text E (w * 0.14) @ '' '' @ number_text E (h * 0.30)
     @ '', '' @ number_text E (w * 0.28) @ '' '' @ number_text E (h * 0.30)
     @ [CHR 0x0A] @ ''            C '' @ number_text E (w * 0.40) @ '' '' @ number_text E (h * 0.30)
     @ '', '' @ number_text E (w * 0.48) @ '' '' @ number_text E (h * 0.39)
     @ '', '' @ number_text E (w * 0.48) @ '' '' @ number_text E (h * 0.48)
     @ [CHR 0x0A] @ ''            C '' @ number_text E (w * 0.48) @ '' '' @ number_text E (h * 0.55)
     @ '', '' @ number_text E (w * 0.43) @ '' '' @ number_text E (h * 0.60)
     @ '', '' @ number_text E (w * 0.38) @ '' '' @ number_text E (h * 0.60)
     @ [CHR 0x0A] @ ''            C '' @ number_text E (w * 0.34) @ '' '' @ number_text E (h * 0.60)
     @ '', '' @ number_text E (w * 0.31) @ '' '' @ number_text E (h * 0.57)
     @ '', '' @ number_text E (w * 0.31) @ '' '' @ number_text E (h * 0.53)\<close>

definition goldenSpiral :: "env \<Rightarrow> real \<Rightarrow> real \<Rightarrow> string" where
  \<open>goldenSpiral E w h =
     (let gx1 = w / phi; gx2 = w - w / phi; gy1 = h / phi; gy2 = h - h / phi
      in ''<g class="overlay-golden-spiral">''
         @ line E gx1 0 gx1 h 0.8
         @ line E gx2 0 gx2 h 0.8
         @ line E 0 gy1 w gy1 0.8
         @ line E 0 gy2 w gy2 0.8
         @ ''<path d="'' @ spiral_path E w h
         @ ''" fill="none" stroke="'' @ stroke_color E
         @ ''" stroke-width="'' @ number_text E STROKE_WIDTH @ ''" />''
         @ ''</g>'')\<close>

definition phiGrid :: "env \<Rightarrow> real \<Rightarrow> real \<Rightarrow> string" where
  \<open>phiGrid E w h =
     (let x1 = w / (1 + phi); x2 = w - x1; y1 = h / (1 + phi); y2 = h - y1
      in ''<g class="overlay-phi-grid">''
         @ line E x1 0 x1 h STROKE_WIDTH
         @ line E x2 0 x2 h STROKE_WIDTH
         @ line E 0 y1 w y1 STROKE_WIDTH
         @ line E 0 y2 w y2 STROKE_WIDTH
         @ ''</g>'')\<close>

definition goldenTriangles :: "env \<Rightarrow> real \<Rightarrow> real \<Rightarrow> string" where
  \<open>goldenTriangles E w h =
     (let d = sqrt (w * w + h * h);
          px1 = (w * h * h) / (d * d);
          py1 = (w * w * h) / (d * d)
      in ''<g class="overlay-golden-triangles">''
         @ line E 0 0 w h STROKE_WIDTH
         @ line E w 0 (w - px1) py1 STROKE_WIDTH
         @ line E 0 h px1 (h - py1) STROKE_WIDTH
         @ ''</g>'')\<close>

definition diagonalMethod :: "env \<Rightarrow> real \<Rightarrow> real \<Rightarrow> string" where
  \<open>diagonalMethod E w h =
     (let minDim = min w h
      in ''<g class="overlay-diagonal-method">''
         @ line E 0 0 minDim minDim STROKE_WIDTH
         @ line E w 0 (w - minDim) minDim STROKE_WIDTH
         @ line E 0 h minDim (h - minDim) STROKE_WIDTH
         @ line E w h (w - minDim) (h - minDim) STROKE_WIDTH
         @ ''</g>'')\<close>

text \<open>
  In \<open>dynamicSymmetry\<close> the local \<open>rx\<close> is computed and never read. The source writes
  \<open>ry * w / h\<close> and \<open>w * h / w\<close> without brackets: product first, then the quotient.
\<close>

definition dynamicSymmetry :: "env \<Rightarrow> real \<Rightarrow> real \<Rightarrow> string" where
  \<open>dynamicSymmetry E w h =
     (let d2 = w * w + h * h;
          ry = (w * w * h) / d2;
          gx = w / phi;
          gy = h / phi
      in ''<g class="overlay-dynamic-symmetry">''
         @ line E 0 0 w h 1
         @ line E w 0 0 h 1
         @ line E 0 0 (ry * w / h) ry 0.8
         @ line E w 0 (w - ry * w / h) ry 0.8
         @ line E 0 h (ry * w / h) (h - ry) 0.8
         @ line E w h (w - ry * w / h) (h - ry) 0.8
         @ line E 0 h w (h - w * h / w) 0.8
         @ line E w 0 0 (w * h / w) 0.8
         @ line E gx 0 gx h 0.5
         @ line E (w - gx) 0 (w - gx) h 0.5
         @ line E 0 gy w gy 0.5
         @ line E 0 (h - gy) w (h - gy) 0.5
         @ ''</g>'')\<close>

text \<open>
  The two polygons of \<open>diamondGrid\<close> are template literals that span two source lines:
  the break is a line feed and twenty blanks.
\<close>

definition diamondGrid :: "env \<Rightarrow> real \<Rightarrow> real \<Rightarrow> string" where
  \<open>diamondGrid E w h =
     (let cx = w / 2; cy = h / 2; s = 0.5
      in ''<g class="overlay-diamond-grid">''
         @ ''<polygon points="'' @ number_text E cx @ '',0 '' @ number_text E w @ '',''
         @ number_text E cy @ '' '' @ number_text E cx @ '','' @ number_text E h @ '' 0,''
         @ number_text E cy @ [CHR 0x22, CHR 0x0A]
         @ ''                    fill="none" stroke="'' @ stroke_color E
         @ ''" stroke-width="'' @ number_text E STROKE_WIDTH @ ''" />''
         @ ''<polygon points="'' @ number_text E cx @ '','' @ number_text E (cy - cy * s)
         @ '' '' @ number_text E (cx + cx * s) @ '','' @ number_text E cy
         @ '' '' @ number_text E cx @ '','' @ number_text E (cy + cy * s)
         @ '' '' @ number_text E (cx - cx * s) @ '','' @ number_text E cy
         @ [CHR 0x22, CHR 0x0A]
         @ ''                    fill="none" stroke="'' @ stroke_color E
         @ ''" stroke-width="1" />''
         @ line E cx 0 cx h 0.5
         @ line E 0 cy w cy 0.5
         @ ''</g>'')\<close>

definition vanishingPoint :: "env \<Rightarrow> real \<Rightarrow> real \<Rightarrow> string" where
  \<open>vanishingPoint E w h =
     (let cx = w / 2; cy = h / 2
      in ''<g class="overlay-vanishing-point">''
         @ line E 0 0 cx cy STROKE_WIDTH
         @ line E w 0 cx cy STROKE_WIDTH
         @ line E 0 h cx cy STROKE_WIDTH
         @ line E w h cx cy STROKE_WIDTH
         @ line E cx 0 cx cy 0.8
         @ line E cx h cx cy 0.8
         @ line E 0 cy cx cy 0.8
         @ line E w cy cx cy 0.8
         @ circle E cx cy 6
         @ circle E cx cy 2
         @ ''</g>'')\<close>

definition centerCross :: "env \<Rightarrow> real \<Rightarrow> real \<Rightarrow> string" where
  \<open>centerCross E w h =
     (let cx = w / 2; cy = h / 2
      in ''<g class="overlay-center-cross">''
         @ line E cx 0 cx h STROKE_WIDTH
         @ line E 0 cy w cy STROKE_WIDTH
         @ circle E cx cy 5
         @ ''</g>'')\<close>

definition quadrants :: "env \<Rightarrow> real \<Rightarrow> real \<Rightarrow> string" where
  \<open>quadrants E w h =
     (let cx = w / 2; cy = h / 2
      in ''<g class="overlay-quadrants">''
         @ line E cx 0 cx h STROKE_WIDTH
         @ line E 0 cy w cy STROKE_WIDTH
         @ line E (w / 4) 0 (w / 4) h 0.5
         @ line E ((3 * w) / 4) 0 ((3 * w) / 4) h 0.5
         @ line E 0 (h / 4) w (h / 4) 0.5
         @ line E 0 ((3 * h) / 4) w ((3 * h) / 4) 0.5
         @ ''</g>'')\<close>

subsection \<open>The registry object and property lookup\<close>

text \<open>
  \<open>registry\<close> is an object literal with ten own properties, in source order.
\<close>

definition registry :: "env \<Rightarrow> (string \<times> (real \<Rightarrow> real \<Rightarrow> string)) list" where
  "registry E =
     [(''rule-of-thirds'', ruleOfThirds E),
      (''golden-spiral'', goldenSpiral E),
      (''phi-grid'', phiGrid E),
      (''golden-triangles'', goldenTriangles E),
      (''diagonal-method'', diagonalMethod E),
      (''dynamic-symmetry'', dynamicSymmetry E),
      (''diamond-grid'', diamondGrid E),
      (''vanishing-point'', vanishingPoint E),
      (''center-cross'', centerCross E),
      (''quadrants'', quadrants E)]"

definition list_keys :: "env \<Rightarrow> string list" where
  "list_keys E = map fst (registry E)"

text \<open>
  An object literal inherits from \<open>Object.prototype\<close>, and the bracket read
  \<open>registry[name]\<close> searches the own properties first and the prototype next. These are
  the properties every \<open>Object.prototype\<close> has by the language standard (its Annex B
  included).
\<close>

datatype proto_member =
    P_constructor
  | P_hasOwnProperty
  | P_isPrototypeOf
  | P_propertyIsEnumerable
  | P_toLocaleString
  | P_toString
  | P_valueOf
  | P_proto
  | P_defineGetter
  | P_defineSetter
  | P_lookupGetter
  | P_lookupSetter

definition object_prototype :: "(string \<times> proto_member) list" where
  "object_prototype =
     [(''constructor'', P_constructor),
      (''hasOwnProperty'', P_hasOwnProperty),
      (''isPrototypeOf'', P_isPrototypeOf),
      (''propertyIsEnumerable'', P_propertyIsEnumerable),
      (''toLocaleString'', P_toLocaleString),
      (''toString'', P_toString),
      (''valueOf'', P_valueOf),
      (''__proto__'', P_proto),
      (''__defineGetter__'', P_defineGetter),
      (''__defineSetter__'', P_defineSetter),
      (''__lookupGetter__'', P_lookupGetter),
      (''__lookupSetter__'', P_lookupSetter)]"

datatype property = OverlayFn "real \<Rightarrow> real \<Rightarrow> string" | Inherited proto_member

definition get_property :: "env \<Rightarrow> string \<Rightarrow> property option" where
  "get_property E name =
     (case map_of (registry E) name of
        Some f \<Rightarrow> Some (OverlayFn f)
      | None \<Rightarrow> map_option Inherited (map_of object_prototype name))"

text \<open>
  What \<open>registry[name](width, height)\<close> gives for an inherited member: the receiver is the
  registry object and the two arguments are numbers. \<open>__proto__\<close> reads as the prototype
  object, which is not a function; the two \<open>__define...__\<close> methods refuse a second
  argument that is not callable. The text of a number is never the name of a property of
  the registry or of its prototype, so the membership tests and the accessor lookups
  answer false and undefined.
\<close>

datatype js_value =
    JString string
  | JBoolean bool
  | JUndefined
  | JNumberObject real
  | JRegistryObject

fun call_inherited :: "proto_member \<Rightarrow> real \<Rightarrow> real \<Rightarrow> js_value completion" where
  "call_inherited P_constructor w h = Return (JNumberObject w)"
| "call_inherited P_hasOwnProperty w h = Return (JBoolean False)"
| "call_inherited P_isPrototypeOf w h = Return (JBoolean False)"
| "call_inherited P_propertyIsEnumerable w h = Return (JBoolean False)"
| "call_inherited P_toLocaleString w h = Return (JString ''[object Object]'')"
| "call_inherited P_toString w h = Return (JString ''[object Object]'')"
| "call_inherited P_valueOf w h = Return JRegistryObject"
| "call_inherited P_proto w h = Throw ''TypeError: registry[name] is not a function''"
| "call_inherited P_defineGetter w h = Throw ''TypeError: getter is not a function''"
| "call_inherited P_defineSetter w h = Throw ''TypeError: setter is not a function''"
| "call_inherited P_lookupGetter w h = Return JUndefined"
| "call_inherited P_lookupSetter w h = Return JUndefined"

subsection \<open>render\<close>

text \<open>
  \<open>if (name === "none" || !registry[name]) return ""; return registry[name](width, height);\<close>
  Every property found is a function or an object, hence truthy; only a name that is
  found nowhere reads as undefined.
\<close>

definition render :: "env \<Rightarrow> string \<Rightarrow> real \<Rightarrow> real \<Rightarrow> js_value completion" where
  "render E name width height =
     (if name = ''none'' then Return (JString [])
      else case get_property E name of
             None \<Rightarrow> Return (JString [])
           | Some (OverlayFn f) \<Rightarrow> Return (JString (f width height))
           | Some (Inherited m) \<Rightarrow> call_inherited m width height)"

section \<open>The session storage core\<close>

text \<open>
  The storage core that the specification describes (ArtifactRegistry, SizeAccountant,
  RetentionSweeper, SessionGate, StorageService) is the server side of the application.
  It is not among the sources: only its callers are, the requests of \<open>app.js\<close> to
  \<open>/api/upload\<close>, \<open>/api/crop\<close> and \<open>/api/download\<close>. The definitions of this section are
  therefore written from the specification's sections 3 and 4, and each says so.
  Integers are unbounded, times are seconds, sizes are bytes.
\<close>

subsection \<open>Data model (spec section 3)\<close>

text \<open>
  Modelled from the spec: the Artifact of section 3 (one file on disk: \<open>filename\<close>,
  \<open>size_bytes\<close> at registration time, \<open>created_at\<close>); the server code that declares it is
  missing from the sources.
\<close>

record artifact =
  filename :: string
  size_bytes :: int
  created_at :: int

text \<open>
  Modelled from the spec: the Session of section 3 (\<open>session_id\<close>, \<open>created_at\<close>,
  \<open>last_touched_at\<close>, \<open>artifacts\<close> in creation order, \<open>pin_count\<close> at least zero); the
  server code that declares it is missing. The session's \<open>created_at\<close> is named
  \<open>first_registered_at\<close> here, since the artifact has a field of that name.
\<close>

record session =
  session_id :: string
  first_registered_at :: int
  last_touched_at :: int
  artifacts :: "artifact list"
  pin_count :: nat

text \<open>
  Modelled from the spec: the configuration of section 6, read once at start. The spec
  compares a byte count with \<open>MAX_STORAGE_MB * STORAGE_WARN_PERCENT / 100\<close> and its
  scenario puts the warn line of 1 MB at 80 percent at 800 KB, so a megabyte is a
  thousand kilobytes; how many bytes a kilobyte has is not said and is the field
  \<open>BYTES_PER_KB\<close>.
\<close>

record config =
  MAX_STORAGE_MB :: int
  STORAGE_WARN_PERCENT :: int
  RETENTION_SECONDS :: int
  BYTES_PER_KB :: int

text \<open>
  Modelled from the spec: the shared state of section 5, the ArtifactRegistry (sessions
  in the order of their first registration) together with the SizeAccountant's running
  total; the server code that holds it is missing.
\<close>

record core =
  sessions :: "session list"
  total :: int

text \<open>Modelled from the spec: the state of a freshly constructed StorageService (section 9).\<close>

definition empty_core :: core where
  "empty_core = \<lparr>sessions = [], total = 0\<rparr>"

text \<open>Modelled from the spec: the error taxonomy of section 7.\<close>

datatype error = InvalidName | NotFound | IOFailure

subsection \<open>ArtifactRegistry and SizeAccountant (spec sections 4.2 and 4.3)\<close>

text \<open>
  Modelled from the spec: \<open>ArtifactRegistry.register\<close> of section 4.2, "creates the
  session if absent, appends the artifact, updates \<open>last_touched_at\<close>, updates
  SizeAccountant". The time of the call is the parameter \<open>now\<close>.
\<close>

definition register :: "string \<Rightarrow> string \<Rightarrow> int \<Rightarrow> int \<Rightarrow> core \<Rightarrow> artifact \<times> core" where
  "register sid fname nbytes now s =
     (let a = \<lparr>filename = fname, size_bytes = nbytes, created_at = now\<rparr>;
          touched = (\<lambda>x. if session_id x = sid
                           then x\<lparr>artifacts := artifacts x @ [a], last_touched_at := now\<rparr>
                           else x);
          fresh = \<lparr>session_id = sid, first_registered_at = now, last_touched_at = now,
                   artifacts = [a], pin_count = 0\<rparr>
      in (a, \<lparr>sessions = (if sid \<in> set (map session_id (sessions s))
                          then map touched (sessions s)
                          else sessions s @ [fresh]),
              total = total s + nbytes\<rparr>))"

text \<open>
  Modelled from the spec: \<open>ArtifactRegistry.remove(session_id)\<close> of section 4.2, which
  returns the removed artifacts; by section 3 the session leaves the index and its size
  is "accounted back down" in the same step.
\<close>

definition remove :: "string \<Rightarrow> core \<Rightarrow> artifact list \<times> core" where
  "remove sid s =
     (let removed = concat (map artifacts (filter (\<lambda>x. session_id x = sid) (sessions s)))
      in (removed,
          \<lparr>sessions = filter (\<lambda>x. session_id x \<noteq> sid) (sessions s),
           total = total s - sum_list (map size_bytes removed)\<rparr>))"

text \<open>
  Modelled from the spec: \<open>sessionsOrderedByLastTouched\<close> of section 4.2, "ascending by
  \<open>last_touched_at\<close> (oldest first)". Sessions touched at the same time keep their
  registration order.
\<close>

definition sessionsOrderedByLastTouched :: "core \<Rightarrow> session list" where
  "sessionsOrderedByLastTouched s = sort_key last_touched_at (sessions s)"

text \<open>Modelled from the spec: \<open>SizeAccountant.totalBytes\<close> of section 4.3, the running total.\<close>

definition totalBytes :: "core \<Rightarrow> int" where
  "totalBytes s = total s"

text \<open>
  Modelled from the spec: \<open>SizeAccountant.isOverWarnThreshold\<close> of section 4.3, which
  "compares \<open>totalBytes()\<close> against \<open>MAX_STORAGE_MB * STORAGE_WARN_PERCENT / 100\<close>", the
  megabytes converted to bytes. The comparison is written without the division, both sides
  multiplied by 100, so that no rounding enters.
\<close>

definition isOverWarnThreshold :: "config \<Rightarrow> core \<Rightarrow> bool" where
  "isOverWarnThreshold cfg s =
     (100 * totalBytes s
        > MAX_STORAGE_MB cfg * (1000 * BYTES_PER_KB cfg) * STORAGE_WARN_PERCENT cfg)"

subsection \<open>SessionGate (spec section 4.5)\<close>

text \<open>
  Modelled from the spec: \<open>SessionGate.pin\<close> of section 4.5, which holds the session's
  \<open>pin_count\<close> above zero while the handle is held.
\<close>

definition pin :: "string \<Rightarrow> core \<Rightarrow> core" where
  "pin sid s =
     s\<lparr>sessions := map (\<lambda>x. if session_id x = sid then x\<lparr>pin_count := pin_count x + 1\<rparr> else x)
                      (sessions s)\<rparr>"

text \<open>
  Modelled from the spec: the \<open>release\<close> of section 4.5, which decrements the
  \<open>pin_count\<close> that the handle's \<open>pin\<close> had raised. The count is "integer at least
  zero" (section 3): a release with no pin held leaves it at zero.
\<close>

definition release :: "string \<Rightarrow> core \<Rightarrow> core" where
  "release sid s =
     s\<lparr>sessions := map (\<lambda>x. if session_id x = sid then x\<lparr>pin_count := pin_count x - 1\<rparr> else x)
                      (sessions s)\<rparr>"

subsection \<open>RetentionSweeper (spec section 4.4)\<close>

text \<open>
  Modelled from the spec: the sweeper's attempt to destroy one session. By section 4.5
  it "skips any session with \<open>pin_count > 0\<close> in the current cycle"; otherwise the session
  is removed from the registry and its size accounted down. The unlinking of the files is
  the work of the filesystem and is not part of this state.
\<close>

definition attempt_destruction :: "session \<Rightarrow> core \<Rightarrow> core" where
  "attempt_destruction x s = (if pin_count x > 0 then s else snd (remove (session_id x) s))"

text \<open>
  Modelled from the spec: the test of the expiry phase of section 4.4,
  \<open>now - last_touched_at > RETENTION_SECONDS\<close>.
\<close>

definition expired :: "config \<Rightarrow> int \<Rightarrow> session \<Rightarrow> bool" where
  "expired cfg now x = (now - last_touched_at x > RETENTION_SECONDS cfg)"

text \<open>
  Modelled from the spec: the expiry phase of section 4.4, "for every session with
  \<open>now - last_touched_at > RETENTION_SECONDS\<close>, attempt destruction", regardless of usage.
\<close>

definition expiry_phase :: "config \<Rightarrow> int \<Rightarrow> core \<Rightarrow> core" where
  "expiry_phase cfg now s =
     foldl (\<lambda>s' x. if expired cfg now x then attempt_destruction x s' else s')
       s (sessionsOrderedByLastTouched s)"

text \<open>
  Modelled from the spec: the sessions the pressure phase may select, the ordered
  sessions without the pinned ones (sections 4.4 and 4.5).
\<close>

definition evictable :: "core \<Rightarrow> session list" where
  "evictable s = filter (\<lambda>x. pin_count x = 0) (sessionsOrderedByLastTouched s)"

text \<open>
  Modelled from the spec: the pressure phase of section 4.4, "re-check
  \<open>isOverWarnThreshold()\<close>. If still over, repeatedly destroy the single oldest remaining
  session (by \<open>sessionsOrderedByLastTouched()\<close>) and re-check, until either usage drops
  back under the warn threshold or no further non-pinned sessions remain". The result
  also lists the sessions destroyed, in the order of their destruction.
\<close>

function pressure_phase :: "config \<Rightarrow> core \<Rightarrow> session list \<times> core" where
  "pressure_phase cfg s =
     (if isOverWarnThreshold cfg s
      then (case evictable s of
              [] \<Rightarrow> ([], s)
            | x # rest \<Rightarrow>
                (case pressure_phase cfg (snd (remove (session_id x) s)) of
                   (evicted, s') \<Rightarrow> (x # evicted, s')))
      else ([], s))"
  by pat_completeness auto
termination
proof (relation "measure (\<lambda>(cfg, s). length (sessions s))")
  show "wf (measure (\<lambda>(cfg, s). length (sessions s)))"
    by simp
next
  fix cfg :: config and s :: core and x :: session and rest :: "session list"
  assume "evictable s = x # rest"
  then have "x \<in> set (evictable s)"
    by simp
  then have "x \<in> set (sessions s)"
    by (simp add: evictable_def sessionsOrderedByLastTouched_def)
  then have "length (filter (\<lambda>y. session_id y \<noteq> session_id x) (sessions s))
               < length (sessions s)"
    by (intro length_filter_less [of x]) simp_all
  then show "((cfg, snd (remove (session_id x) s)), (cfg, s))
               \<in> measure (\<lambda>(cfg, s). length (sessions s))"
    by (simp add: remove_def Let_def)
qed

declare pressure_phase.simps [simp del]

text \<open>
  Modelled from the spec: one sweep cycle of section 4.4, the expiry phase followed by
  the pressure phase.
\<close>

definition sweep :: "config \<Rightarrow> int \<Rightarrow> core \<Rightarrow> session list \<times> core" where
  "sweep cfg now s = pressure_phase cfg (expiry_phase cfg now s)"

subsection \<open>StorageService (spec section 4.6)\<close>

text \<open>
  Modelled from the spec: what the collaborators of \<open>store\<close> report. PathResolver may
  reject the name, and the write by the external I/O collaborator may fail partway.
\<close>

datatype store_io = NameRejected | WriteFailed | Written

text \<open>
  Modelled from the spec: \<open>StorageService.store\<close> of section 4.6, "writes the file via the
  external I/O collaborator, then calls \<open>ArtifactRegistry.register\<close>. If the write fails
  partway, no registry entry is created". The size registered is the number of bytes.
\<close>

definition store :: "store_io \<Rightarrow> string \<Rightarrow> string \<Rightarrow> int \<Rightarrow> int \<Rightarrow> core
    \<Rightarrow> (error + artifact) \<times> core" where
  "store io sid fname nbytes now s =
     (case io of
        NameRejected \<Rightarrow> (Inl InvalidName, s)
      | WriteFailed \<Rightarrow> (Inl IOFailure, s)
      | Written \<Rightarrow> (case register sid fname nbytes now s of (a, s') \<Rightarrow> (Inr a, s')))"

subsection \<open>Sequences of operations on the core\<close>

text \<open>
  Modelled from the spec: the operations that section 5 serialises on the shared state,
  as the web layer and the sweeper issue them.
\<close>

datatype core_op =
    Store store_io string string int int
  | Sweep int
  | Pin string
  | Release string

text \<open>Modelled from the spec: the effect of one operation on the shared state.\<close>

fun apply_op :: "config \<Rightarrow> core \<Rightarrow> core_op \<Rightarrow> core" where
  "apply_op cfg s (Store io sid fname nbytes now) = snd (store io sid fname nbytes now s)"
| "apply_op cfg s (Sweep now) = snd (sweep cfg now s)"
| "apply_op cfg s (Pin sid) = pin sid s"
| "apply_op cfg s (Release sid) = release sid s"

text \<open>Modelled from the spec: the state reached from an empty core by a sequence of operations.\<close>

definition run_ops :: "config \<Rightarrow> core_op list \<Rightarrow> core" where
  "run_ops cfg ops = foldl (apply_op cfg) empty_core ops"

text \<open>
  Modelled from the spec: the sum of \<open>size_bytes\<close> over all artifacts of a list of
  sessions, the right-hand side of the accounting invariant of section 3.
\<close>

definition bytes_of :: "session list \<Rightarrow> int" where
  "bytes_of xs = sum_list (map size_bytes (concat (map artifacts xs)))"

text \<open>
  Modelled from the spec: the sum of \<open>size_bytes\<close> over all artifacts currently present
  in the registry.
\<close>

definition registered_bytes :: "core \<Rightarrow> int" where
  "registered_bytes s = bytes_of (sessions s)"

text \<open>Modelled from the spec: destroying a list of sessions one after the other.\<close>

definition destroy_all :: "session list \<Rightarrow> core \<Rightarrow> core" where
  "destroy_all xs s = foldl (\<lambda>s' x. snd (remove (session_id x) s')) s xs"

text \<open>
  Modelled from the spec: session identifiers are unique (section 3: "opaque unique
  token ... never reused"), so the registry holds each at most once.
\<close>

definition unique_ids :: "core \<Rightarrow> bool" where
  "unique_ids s = distinct (map session_id (sessions s))"

text \<open>
  Modelled from the spec: the two invariants of section 3 that every operation keeps,
  unique session identifiers and \<open>SizeAccountant.total\<close> equal to the sum of the
  registered sizes.
\<close>

definition sound :: "core \<Rightarrow> bool" where
  "sound s = (unique_ids s \<and> total s = registered_bytes s)"

section \<open>Concrete inputs for worked instances\<close>

text \<open>A library that constructs every instance, answers every call and always yields a blob.\<close>

definition quiet_library :: "unit library" where
  "quiet_library =
     \<lparr>construct = (\<lambda>img. True),
      respond = (\<lambda>cs c. Reply ()),
      toBlob = (\<lambda>canvas t q. Reply (Some ()))\<rparr>"

text \<open>
  The scenario of the specification's section 8: a 1 MB budget with the warn line at 80
  percent and a retention of 3600 seconds; three sessions of 300 KB stored at the times
  0, 10 and 20. \<open>k\<close> is the number of bytes in a kilobyte.
\<close>

definition scenario_config :: "int \<Rightarrow> config" where
  "scenario_config k =
     \<lparr>MAX_STORAGE_MB = 1, STORAGE_WARN_PERCENT = 80, RETENTION_SECONDS = 3600,
      BYTES_PER_KB = k\<rparr>"

definition scenario_core :: "int \<Rightarrow> core" where
  "scenario_core k =
     run_ops (scenario_config k)
       [Store Written ''A'' ''a.png'' (300 * k) 0,
        Store Written ''B'' ''b.png'' (300 * k) 10,
        Store Written ''C'' ''c.png'' (300 * k) 20]"

text \<open>A session that holds one artifact of 300 KB, registered at time \<open>t\<close> and not pinned.\<close>

definition scenario_session :: "string \<Rightarrow> string \<Rightarrow> int \<Rightarrow> int \<Rightarrow> session" where
  "scenario_session sid fname k t =
     \<lparr>session_id = sid, first_registered_at = t, last_touched_at = t,
      artifacts = [\<lparr>filename = fname, size_bytes = 300 * k, created_at = t\<rparr>],
      pin_count = 0\<rparr>"

section \<open>Properties of CropperManager\<close>

lemmas manager_defs =
  init_def destroy_def getData_def getCanvasData_def getCropBoxData_def rotate_def
  flipHorizontal_def flipVertical_def reset_def setAspectRatio_def replace_def
  getCroppedBlob_def query_def command_def

text \<open>
  Claim C8. When no cropper instance is active (\<open>cropper\<close> is null), the three queries
  \<open>getData\<close>, \<open>getCanvasData\<close> and \<open>getCropBoxData\<close> return null; \<open>rotate\<close>,
  \<open>flipHorizontal\<close>, \<open>flipVertical\<close>, \<open>reset\<close>, \<open>setAspectRatio\<close> and \<open>replace\<close> return
  normally and leave the module's state as it was; \<open>getCroppedBlob\<close> returns (it does not
  throw) a promise rejected with the error "No active cropper instance.". None of the
  results depends on the library, and no call is made on an instance: every function
  returns, none throws the TypeError that a read through null would be.
\<close>

theorem no_instance_is_safe:
  assumes "cropper s = None"
  shows "getData L rounded s = (Return Null, s)
    \<and> getCanvasData L s = (Return Null, s)
    \<and> getCropBoxData L s = (Return Null, s)
    \<and> rotate L degrees s = (Return Undefined, s)
    \<and> flipHorizontal L s = (Return Undefined, s)
    \<and> flipVertical L s = (Return Undefined, s)
    \<and> reset L s = (Return Undefined, s)
    \<and> setAspectRatio L ratio s = (Return Undefined, s)
    \<and> replace L url s = (Return Undefined, s)
    \<and> getCroppedBlob L type quality s
        = (Return (Rejected ''No active cropper instance.''), s)"
  using assms
  by (simp add: getData_def getCanvasData_def getCropBoxData_def rotate_def
      flipHorizontal_def flipVertical_def reset_def setAspectRatio_def replace_def
      getCroppedBlob_def)

theorem no_instance_is_safe_witness:
  "cropper initial = None
    \<and> getData quiet_library True initial = (Return Null, initial)
    \<and> getCanvasData quiet_library initial = (Return Null, initial)
    \<and> getCropBoxData quiet_library initial = (Return Null, initial)
    \<and> rotate quiet_library (Num 90) initial = (Return Undefined, initial)
    \<and> flipHorizontal quiet_library initial = (Return Undefined, initial)
    \<and> flipVertical quiet_library initial = (Return Undefined, initial)
    \<and> reset quiet_library initial = (Return Undefined, initial)
    \<and> setAspectRatio quiet_library NaN initial = (Return Undefined, initial)
    \<and> replace quiet_library ''/api/download/s/f.png'' initial = (Return Undefined, initial)
    \<and> getCroppedBlob quiet_library ''image/png'' (Num 0.95) initial
        = (Return (Rejected ''No active cropper instance.''), initial)"
proof -
  have idle: "cropper initial = None"
    by (simp add: initial_def)
  show ?thesis
    using idle
      no_instance_is_safe [OF idle, of quiet_library True "Num 90" NaN
        "''/api/download/s/f.png''" "''image/png''" "Num 0.95"]
    by simp
qed

lemma step_keeps_unit_scale:
  "unit_scale (scaleX s) \<and> unit_scale (scaleY s) \<Longrightarrow>
   unit_scale (scaleX (step L s x)) \<and> unit_scale (scaleY (step L s x))"
  by (cases x)
     (auto simp: manager_defs unit_scale_def Let_def
      split: option.splits lib_reply.splits prod.splits completion.splits)

lemma foldl_keeps_unit_scale:
  "unit_scale (scaleX s) \<and> unit_scale (scaleY s) \<Longrightarrow>
   unit_scale (scaleX (foldl (step L) s ops)) \<and> unit_scale (scaleY (foldl (step L) s ops))"
proof (induction ops arbitrary: s)
  case Nil
  then show ?case by simp
next
  case (Cons x ops)
  from Cons.prems have "unit_scale (scaleX (step L s x)) \<and> unit_scale (scaleY (step L s x))"
    by (rule step_keeps_unit_scale)
  then show ?case
    using Cons.IH by simp
qed

lemma init_sets_unit:
  "fst (init L img s) = Return r \<Longrightarrow>
   scaleX (snd (init L img s)) = 1 \<and> scaleY (snd (init L img s)) = 1"
  by (auto simp: init_def Let_def split: prod.splits completion.splits if_splits)

lemma reset_sets_unit:
  "isActive s \<Longrightarrow> scaleX (snd (reset L s)) = 1 \<and> scaleY (snd (reset L s)) = 1"
  by (auto simp: reset_def command_def isActive_def Let_def split: lib_reply.splits)

lemma flipHorizontal_negates:
  "isActive s \<Longrightarrow>
   scaleX (snd (flipHorizontal L s)) = - scaleX s
   \<and> scaleY (snd (flipHorizontal L s)) = scaleY s
   \<and> isActive (snd (flipHorizontal L s))"
  by (auto simp: flipHorizontal_def command_def isActive_def Let_def split: lib_reply.splits)

lemma flipVertical_negates:
  "isActive s \<Longrightarrow>
   scaleY (snd (flipVertical L s)) = - scaleY s
   \<and> scaleX (snd (flipVertical L s)) = scaleX s
   \<and> isActive (snd (flipVertical L s))"
  by (auto simp: flipVertical_def command_def isActive_def Let_def split: lib_reply.splits)

lemma flip_idle:
  "\<not> isActive s \<Longrightarrow> snd (flipHorizontal L s) = s \<and> snd (flipVertical L s) = s"
  by (auto simp: flipHorizontal_def flipVertical_def isActive_def)

lemma flipHorizontal_twice:
  "scaleX (snd (flipHorizontal L (snd (flipHorizontal L s)))) = scaleX s
   \<and> scaleY (snd (flipHorizontal L (snd (flipHorizontal L s)))) = scaleY s"
proof (cases "isActive s")
  case True
  then show ?thesis
    using flipHorizontal_negates [of s L] flipHorizontal_negates [of "snd (flipHorizontal L s)" L]
    by simp
next
  case False
  then show ?thesis by (simp add: flip_idle)
qed

lemma flipVertical_twice:
  "scaleX (snd (flipVertical L (snd (flipVertical L s)))) = scaleX s
   \<and> scaleY (snd (flipVertical L (snd (flipVertical L s)))) = scaleY s"
proof (cases "isActive s")
  case True
  then show ?thesis
    using flipVertical_negates [of s L] flipVertical_negates [of "snd (flipVertical L s)" L]
    by simp
next
  case False
  then show ?thesis by (simp add: flip_idle)
qed

text \<open>
  Claim C9. In every state the module reaches from its initial one, by any sequence of
  its functions and whatever the library answers, \<open>scaleX\<close> and \<open>scaleY\<close> are each 1 or
  -1, and every single function keeps them so. An \<open>init\<close> that returns has set both to
  1 (an \<open>init\<close> whose \<open>destroy\<close> of the old instance raised has stopped before the
  assignments); \<open>reset\<close> on a live instance sets both to 1; on a live instance
  \<open>flipHorizontal\<close> negates \<open>scaleX\<close> and leaves \<open>scaleY\<close>, and \<open>flipVertical\<close> negates
  \<open>scaleY\<close> and leaves \<open>scaleX\<close>. Hence \<open>flipHorizontal\<close> twice, and \<open>flipVertical\<close>
  twice, give back the scale state they started from.
\<close>

theorem scale_state_invariant:
  "unit_scale (scaleX (run L ops)) \<and> unit_scale (scaleY (run L ops))
   \<and> (unit_scale (scaleX s) \<and> unit_scale (scaleY s) \<longrightarrow>
        unit_scale (scaleX (step L s x)) \<and> unit_scale (scaleY (step L s x)))
   \<and> (fst (init L img s) = Return r \<longrightarrow>
        scaleX (snd (init L img s)) = 1 \<and> scaleY (snd (init L img s)) = 1)
   \<and> (isActive s \<longrightarrow> scaleX (snd (reset L s)) = 1 \<and> scaleY (snd (reset L s)) = 1)
   \<and> (isActive s \<longrightarrow>
        scaleX (snd (flipHorizontal L s)) = - scaleX s
        \<and> scaleY (snd (flipHorizontal L s)) = scaleY s)
   \<and> (isActive s \<longrightarrow>
        scaleY (snd (flipVertical L s)) = - scaleY s
        \<and> scaleX (snd (flipVertical L s)) = scaleX s)
   \<and> scaleX (snd (flipHorizontal L (snd (flipHorizontal L s)))) = scaleX s
   \<and> scaleY (snd (flipHorizontal L (snd (flipHorizontal L s)))) = scaleY s
   \<and> scaleX (snd (flipVertical L (snd (flipVertical L s)))) = scaleX s
   \<and> scaleY (snd (flipVertical L (snd (flipVertical L s)))) = scaleY s"
proof -
  have start: "unit_scale (scaleX initial) \<and> unit_scale (scaleY initial)"
    by (simp add: initial_def unit_scale_def)
  have reach: "unit_scale (scaleX (run L ops)) \<and> unit_scale (scaleY (run L ops))"
    unfolding run_def using start by (rule foldl_keeps_unit_scale)
  show ?thesis
    using reach step_keeps_unit_scale [of s L x] init_sets_unit [of L img s r]
      reset_sets_unit [of s L] flipHorizontal_negates [of s L] flipVertical_negates [of s L]
      flipHorizontal_twice [of L s] flipVertical_twice [of L s]
    by blast
qed

lemma quiet_run:
  "run quiet_library [Init ''editor-image'', FlipHorizontal]
     = \<lparr>cropper = Some [LibScaleX (- 1)], imageEl = Some ''editor-image'',
        scaleX = - 1, scaleY = 1\<rparr>"
  by (simp add: run_def initial_def manager_defs quiet_library_def Let_def)

theorem scale_state_invariant_witness:
  "isActive (run quiet_library [Init ''editor-image'', FlipHorizontal])
   \<and> unit_scale (scaleX (run quiet_library [Init ''editor-image'', FlipHorizontal]))
   \<and> unit_scale (scaleY (run quiet_library [Init ''editor-image'', FlipHorizontal]))
   \<and> fst (init quiet_library ''editor-image''
             (run quiet_library [Init ''editor-image'', FlipHorizontal])) = Return (Instance [])
   \<and> scaleX (snd (init quiet_library ''editor-image''
             (run quiet_library [Init ''editor-image'', FlipHorizontal]))) = 1
   \<and> scaleX (run quiet_library [Init ''editor-image'', FlipHorizontal]) = - 1
   \<and> scaleX (snd (reset quiet_library
             (run quiet_library [Init ''editor-image'', FlipHorizontal]))) = 1
   \<and> scaleX (snd (flipHorizontal quiet_library
             (run quiet_library [Init ''editor-image'', FlipHorizontal]))) = 1
   \<and> scaleY (snd (flipVertical quiet_library
             (run quiet_library [Init ''editor-image'', FlipHorizontal]))) = - 1
   \<and> unit_scale (scaleX (step quiet_library
             (run quiet_library [Init ''editor-image'', FlipHorizontal]) FlipVertical))"
proof -
  let ?s = "run quiet_library [Init ''editor-image'', FlipHorizontal]"
  have active: "isActive ?s"
    by (simp add: quiet_run isActive_def)
  have returns: "fst (init quiet_library ''editor-image'' ?s) = Return (Instance [])"
    unfolding quiet_run by (simp add: manager_defs quiet_library_def Let_def)
  have now: "scaleX ?s = - 1" "scaleY ?s = 1"
    by (simp_all add: quiet_run)
  show ?thesis
    using active returns now
      scale_state_invariant [of quiet_library "[Init ''editor-image'', FlipHorizontal]"
        ?s FlipVertical "''editor-image''" "Instance []"]
    by (simp add: unit_scale_def)
qed

section \<open>Properties of Overlays.render\<close>

lemma list_keys_are:
  "list_keys E =
     [''rule-of-thirds'', ''golden-spiral'', ''phi-grid'', ''golden-triangles'',
      ''diagonal-method'', ''dynamic-symmetry'', ''diamond-grid'', ''vanishing-point'',
      ''center-cross'', ''quadrants'']"
  by (simp add: list_keys_def registry_def)

lemma overlay_nonempty: "map_of (registry E) name = Some f \<Longrightarrow> f w h \<noteq> []"
  by (auto simp: registry_def ruleOfThirds_def goldenSpiral_def phiGrid_def
        goldenTriangles_def diagonalMethod_def dynamicSymmetry_def diamondGrid_def
        vanishingPoint_def centerCross_def quadrants_def Let_def
      split: if_splits)

text \<open>
  For a registry key, \<open>render\<close> returns the non-empty text of that key's overlay.
\<close>

lemma render_registry_key:
  assumes "name \<in> set (list_keys E)"
  shows "\<exists>svg. render E name w h = Return (JString svg) \<and> svg \<noteq> []"
proof -
  from assms obtain f where f: "map_of (registry E) name = Some f"
    by (auto simp: list_keys_def registry_def)
  have "name \<noteq> ''none''"
    using assms by (auto simp: list_keys_are)
  then have "render E name w h = Return (JString (f w h))"
    using f by (simp add: render_def get_property_def)
  then show ?thesis
    using overlay_nonempty [OF f] by simp
qed

text \<open>
  For a name that is neither a registry key nor the name of a property inherited from
  \<open>Object.prototype\<close>, \<open>render\<close> returns the empty string, as it does for "none".
\<close>

lemma render_unknown_name:
  assumes "name = ''none'' \<or> (name \<notin> set (list_keys E) \<and> name \<notin> set (map fst object_prototype))"
  shows "render E name w h = Return (JString [])"
proof (cases "name = ''none''")
  case True
  then show ?thesis by (simp add: render_def)
next
  case False
  with assms have a: "name \<notin> set (map fst (registry E))" and b: "name \<notin> set (map fst object_prototype)"
    by (simp_all add: list_keys_def)
  from a have "map_of (registry E) name = None"
    by (simp add: map_of_eq_None_iff)
  moreover from b have "map_of object_prototype name = None"
    by (simp add: map_of_eq_None_iff)
  ultimately show ?thesis
    by (simp add: render_def get_property_def)
qed

text \<open>
  Claim C10, at the names where the code departs from it. "toString" is not "none" and
  is not one of the ten registry keys, so the claim (and the function's own comment,
  "or \<open>""\<close> if name is "none" / unknown") asks for the empty string. The bracket read
  \<open>registry[name]\<close> finds the method inherited from \<open>Object.prototype\<close>, the guard lets it
  pass, and \<open>render\<close> returns the text "[object Object]". For "\_\_proto\_\_" the read
  finds the prototype object, the guard lets it pass, and the call throws a TypeError.
\<close>

theorem render_inherited_names:
  "''toString'' \<noteq> ''none'' \<and> ''toString'' \<notin> set (list_keys E)
   \<and> render E ''toString'' w h = Return (JString ''[object Object]'')
   \<and> ''__proto__'' \<noteq> ''none'' \<and> ''__proto__'' \<notin> set (list_keys E)
   \<and> render E ''__proto__'' w h = Throw ''TypeError: registry[name] is not a function''"
  by (simp add: list_keys_are render_def get_property_def registry_def object_prototype_def)

section \<open>Properties of the session storage core\<close>

subsection \<open>Both invariants are kept by every operation\<close>

lemma bytes_of_simps [simp]:
  "bytes_of [] = 0"
  "bytes_of (x # xs) = sum_list (map size_bytes (artifacts x)) + bytes_of xs"
  "bytes_of (xs @ ys) = bytes_of xs + bytes_of ys"
  by (simp_all add: bytes_of_def)

lemma bytes_of_partition:
  "bytes_of (filter P xs) + bytes_of (filter (\<lambda>x. \<not> P x) xs) = bytes_of xs"
  by (induction xs) simp_all

lemma bytes_of_touch:
  assumes "distinct (map session_id xs)" and "sid \<in> set (map session_id xs)"
  shows "bytes_of (map (\<lambda>x. if session_id x = sid
                          then x\<lparr>artifacts := artifacts x @ [a], last_touched_at := now\<rparr>
                          else x) xs)
         = bytes_of xs + size_bytes a"
  using assms
proof (induction xs)
  case Nil
  then show ?case by simp
next
  case (Cons y ys)
  show ?case
  proof (cases "session_id y = sid")
    case True
    with Cons.prems have "sid \<notin> set (map session_id ys)"
      by auto
    then have "map (\<lambda>x. if session_id x = sid
                          then x\<lparr>artifacts := artifacts x @ [a], last_touched_at := now\<rparr>
                          else x) ys = ys"
      by (induction ys) auto
    with True show ?thesis by simp
  next
    case False
    with Cons show ?thesis by auto
  qed
qed

lemma ids_of_touch:
  "session_id \<circ> (\<lambda>x. if session_id x = sid
                          then x\<lparr>artifacts := artifacts x @ [a], last_touched_at := now\<rparr>
                          else x) = session_id"
  by (rule ext) simp

lemma ids_of_pin:
  "session_id \<circ> (\<lambda>x. if session_id x = sid then x\<lparr>pin_count := k x\<rparr> else x) = session_id"
  by (rule ext) simp

lemma bytes_of_pin:
  "bytes_of (map (\<lambda>x. if session_id x = sid then x\<lparr>pin_count := k x\<rparr> else x) xs) = bytes_of xs"
  by (induction xs) auto

lemma sound_register: "sound s \<Longrightarrow> sound (snd (register sid fname nbytes now s))"
  by (auto simp: sound_def unique_ids_def register_def Let_def registered_bytes_def
      bytes_of_touch ids_of_touch)

lemma sound_remove: "sound s \<Longrightarrow> sound (snd (remove sid s))"
proof -
  assume a: "sound s"
  have "bytes_of (filter (\<lambda>x. session_id x = sid) (sessions s))
          + bytes_of (filter (\<lambda>x. \<not> session_id x = sid) (sessions s)) = bytes_of (sessions s)"
    by (rule bytes_of_partition)
  with a show ?thesis
    by (simp add: sound_def unique_ids_def remove_def Let_def registered_bytes_def
        distinct_map_filter bytes_of_def)
qed

lemma sound_attempt: "sound s \<Longrightarrow> sound (attempt_destruction x s)"
  by (simp add: attempt_destruction_def sound_remove)

lemma sound_expiry_fold:
  "sound s \<Longrightarrow>
   sound (foldl (\<lambda>s' x. if expired cfg now x then attempt_destruction x s' else s') s xs)"
  by (induction xs arbitrary: s) (simp_all add: sound_attempt)

lemma sound_expiry: "sound s \<Longrightarrow> sound (expiry_phase cfg now s)"
  by (simp add: expiry_phase_def sound_expiry_fold)

lemma sound_pressure: "sound s \<Longrightarrow> sound (snd (pressure_phase cfg s))"
proof (induction cfg s rule: pressure_phase.induct)
  case (1 cfg s)
  show ?case
  proof (cases "isOverWarnThreshold cfg s")
    case False
    then show ?thesis
      using "1.prems" by (simp add: pressure_phase.simps)
  next
    case True
    show ?thesis
    proof (cases "evictable s")
      case Nil
      with True show ?thesis
        using "1.prems" by (simp add: pressure_phase.simps)
    next
      case (Cons x rest)
      have "sound (snd (pressure_phase cfg (snd (remove (session_id x) s))))"
        using "1.IH" [OF True Cons] "1.prems" by (simp add: sound_remove)
      with True Cons show ?thesis
        by (auto simp: pressure_phase.simps [of cfg s] split: prod.splits)
    qed
  qed
qed

lemma sound_pin: "sound s \<Longrightarrow> sound (pin sid s)"
  by (simp add: sound_def unique_ids_def pin_def registered_bytes_def ids_of_pin bytes_of_pin)

lemma sound_release: "sound s \<Longrightarrow> sound (release sid s)"
  by (simp add: sound_def unique_ids_def release_def registered_bytes_def ids_of_pin bytes_of_pin)

lemma sound_apply_op: "sound s \<Longrightarrow> sound (apply_op cfg s x)"
proof (cases x)
  case (Store io sid fname nbytes now)
  assume "sound s"
  then show ?thesis
    using Store sound_register [of s sid fname nbytes now]
    by (cases io) (auto simp: store_def split: prod.splits)
next
  case (Sweep now)
  assume "sound s"
  then show ?thesis
    using Sweep by (simp add: sweep_def sound_pressure sound_expiry)
next
  case (Pin sid)
  assume "sound s"
  then show ?thesis using Pin by (simp add: sound_pin)
next
  case (Release sid)
  assume "sound s"
  then show ?thesis using Release by (simp add: sound_release)
qed

lemma sound_foldl: "sound s \<Longrightarrow> sound (foldl (apply_op cfg) s ops)"
  by (induction ops arbitrary: s) (simp_all add: sound_apply_op)

lemma sound_run_ops: "sound (run_ops cfg ops)"
  unfolding run_ops_def
  by (rule sound_foldl) (simp add: sound_def unique_ids_def empty_core_def registered_bytes_def)

subsection \<open>What the pressure phase destroys\<close>

lemma distinct_ids_insort:
  "distinct (map session_id (insort_key last_touched_at x xs))
     = (session_id x \<notin> session_id ` set xs \<and> distinct (map session_id xs))"
  by (induction xs) (auto simp: set_insort_key)

lemma distinct_ids_sort:
  "distinct (map session_id (sort_key last_touched_at xs)) = distinct (map session_id xs)"
  by (induction xs) (simp_all add: distinct_ids_insort)

lemma distinct_ids_evictable: "unique_ids s \<Longrightarrow> distinct (map session_id (evictable s))"
  by (simp add: unique_ids_def evictable_def sessionsOrderedByLastTouched_def
      distinct_ids_sort distinct_map_filter)

lemma evictable_remove:
  "evictable (snd (remove sid s)) = filter (\<lambda>y. session_id y \<noteq> sid) (evictable s)"
proof -
  have "evictable (snd (remove sid s))
      = filter (\<lambda>x. pin_count x = 0)
          (filter (\<lambda>y. session_id y \<noteq> sid) (sort_key last_touched_at (sessions s)))"
    by (simp add: evictable_def sessionsOrderedByLastTouched_def remove_def Let_def filter_sort)
  also have "\<dots> = filter (\<lambda>y. session_id y \<noteq> sid) (evictable s)"
    by (simp add: evictable_def sessionsOrderedByLastTouched_def conj_commute)
  finally show ?thesis .
qed

lemma evictable_after_head:
  assumes "unique_ids s" and "evictable s = x # rest"
  shows "evictable (snd (remove (session_id x) s)) = rest"
proof -
  have "distinct (map session_id (x # rest))"
    using distinct_ids_evictable [OF assms(1)] assms(2) by simp
  then have "\<forall>y\<in>set rest. session_id y \<noteq> session_id x"
    by (auto simp: image_iff)
  then have "filter (\<lambda>y. session_id y \<noteq> session_id x) rest = rest"
    by (simp add: filter_id_conv)
  then show ?thesis
    by (simp add: evictable_remove assms(2))
qed

lemma unique_ids_remove: "unique_ids s \<Longrightarrow> unique_ids (snd (remove sid s))"
  by (simp add: unique_ids_def remove_def Let_def distinct_map_filter)

lemma destroy_all_Cons: "destroy_all (x # xs) s = destroy_all xs (snd (remove (session_id x) s))"
  by (simp add: destroy_all_def)

lemma pressure_phase_spec:
  assumes "unique_ids s"
  shows "fst (pressure_phase cfg s) = take (length (fst (pressure_phase cfg s))) (evictable s)
    \<and> snd (pressure_phase cfg s) = destroy_all (fst (pressure_phase cfg s)) s
    \<and> (\<not> isOverWarnThreshold cfg (snd (pressure_phase cfg s))
         \<or> evictable (snd (pressure_phase cfg s)) = [])
    \<and> (\<forall>n < length (fst (pressure_phase cfg s)).
          isOverWarnThreshold cfg (destroy_all (take n (fst (pressure_phase cfg s))) s))"
  using assms
proof (induction cfg s rule: pressure_phase.induct)
  case (1 cfg s)
  show ?case
  proof (cases "isOverWarnThreshold cfg s")
    case False
    then have "pressure_phase cfg s = ([], s)"
      by (simp add: pressure_phase.simps)
    with False show ?thesis
      by (simp add: destroy_all_def)
  next
    case True
    show ?thesis
    proof (cases "evictable s")
      case Nil
      with True have "pressure_phase cfg s = ([], s)"
        by (simp add: pressure_phase.simps)
      with Nil show ?thesis
        by (simp add: destroy_all_def)
    next
      case (Cons x rest)
      let ?s1 = "snd (remove (session_id x) s)"
      let ?ev = "fst (pressure_phase cfg ?s1)"
      let ?s' = "snd (pressure_phase cfg ?s1)"
      have unfold: "pressure_phase cfg s = (x # ?ev, ?s')"
        using True Cons by (simp add: pressure_phase.simps [of cfg s] split: prod.splits)
      have ev1: "evictable ?s1 = rest"
        using "1.prems" Cons by (rule evictable_after_head)
      have IH0: "?ev = take (length ?ev) (evictable ?s1)
        \<and> ?s' = destroy_all ?ev ?s1
        \<and> (\<not> isOverWarnThreshold cfg ?s' \<or> evictable ?s' = [])
        \<and> (\<forall>n < length ?ev. isOverWarnThreshold cfg (destroy_all (take n ?ev) ?s1))"
        using True Cons unique_ids_remove [OF "1.prems"] by (rule "1.IH")
      have IH: "?ev = take (length ?ev) rest
        \<and> ?s' = destroy_all ?ev ?s1
        \<and> (\<not> isOverWarnThreshold cfg ?s' \<or> evictable ?s' = [])
        \<and> (\<forall>n < length ?ev. isOverWarnThreshold cfg (destroy_all (take n ?ev) ?s1))"
        using IH0 unfolding ev1 .
      have early: "isOverWarnThreshold cfg (destroy_all (take n (x # ?ev)) s)"
        if "n < length (x # ?ev)" for n
      proof (cases n)
        case 0
        then show ?thesis using True by (simp add: destroy_all_def)
      next
        case (Suc m)
        with that have "m < length ?ev" by simp
        with IH have "isOverWarnThreshold cfg (destroy_all (take m ?ev) ?s1)" by blast
        with Suc show ?thesis by (simp add: destroy_all_Cons)
      qed
      have a: "x # ?ev = take (length (x # ?ev)) (evictable s)"
        using IH Cons by simp
      have b: "?s' = destroy_all (x # ?ev) s"
        using IH by (simp only: destroy_all_Cons)
      have c: "\<not> isOverWarnThreshold cfg ?s' \<or> evictable ?s' = []"
        using IH by blast
      show ?thesis
        unfolding unfold fst_conv snd_conv using a b c early by blast
    qed
  qed
qed

lemma sorted_evictable: "sorted (map last_touched_at (evictable s))"
  by (simp add: evictable_def sessionsOrderedByLastTouched_def sorted_filter)

lemma sorted_take_map: "sorted (map f xs) \<Longrightarrow> sorted (map f (take n xs))"
  by (simp add: take_map [symmetric])

lemma expiry_fold_idle:
  "\<forall>x\<in>set xs. \<not> expired cfg now x \<Longrightarrow>
   foldl (\<lambda>s' x. if expired cfg now x then attempt_destruction x s' else s') s xs = s"
  by (induction xs arbitrary: s) simp_all

lemma expiry_phase_idle:
  "\<forall>x\<in>set (sessions s). \<not> expired cfg now x \<Longrightarrow> expiry_phase cfg now s = s"
  by (simp add: expiry_phase_def sessionsOrderedByLastTouched_def expiry_fold_idle)

subsection \<open>The scenario of three sessions\<close>

lemma scenario_core_eq:
  "scenario_core k =
     \<lparr>sessions = [scenario_session ''A'' ''a.png'' k 0, scenario_session ''B'' ''b.png'' k 10,
                  scenario_session ''C'' ''c.png'' k 20],
      total = 900 * k\<rparr>"
  by (simp add: scenario_core_def run_ops_def empty_core_def store_def register_def Let_def
      scenario_session_def)

lemma scenario_no_expiry:
  "expiry_phase (scenario_config k) 30 (scenario_core k) = scenario_core k"
  by (rule expiry_phase_idle)
     (simp add: scenario_core_eq scenario_session_def expired_def scenario_config_def)

lemma scenario_evictable:
  "evictable (scenario_core k) =
     [scenario_session ''A'' ''a.png'' k 0, scenario_session ''B'' ''b.png'' k 10,
      scenario_session ''C'' ''c.png'' k 20]"
  by (simp add: evictable_def sessionsOrderedByLastTouched_def scenario_core_eq scenario_session_def)

lemma scenario_over:
  "0 < k \<Longrightarrow> isOverWarnThreshold (scenario_config k) (scenario_core k)"
  by (simp add: isOverWarnThreshold_def totalBytes_def scenario_core_eq scenario_config_def)

lemma scenario_after:
  "snd (remove ''A'' (scenario_core k)) =
     \<lparr>sessions = [scenario_session ''B'' ''b.png'' k 10, scenario_session ''C'' ''c.png'' k 20],
      total = 600 * k\<rparr>"
  by (simp add: remove_def Let_def scenario_core_eq scenario_session_def)

lemma scenario_sweep:
  assumes "0 < k"
  shows "sweep (scenario_config k) 30 (scenario_core k) =
     ([scenario_session ''A'' ''a.png'' k 0],
      \<lparr>sessions = [scenario_session ''B'' ''b.png'' k 10, scenario_session ''C'' ''c.png'' k 20],
       total = 600 * k\<rparr>)"
proof -
  have under: "\<not> isOverWarnThreshold (scenario_config k) (snd (remove ''A'' (scenario_core k)))"
    using assms by (simp add: scenario_after isOverWarnThreshold_def totalBytes_def scenario_config_def)
  have stop: "pressure_phase (scenario_config k) (snd (remove ''A'' (scenario_core k)))
      = ([], snd (remove ''A'' (scenario_core k)))"
    using under by (simp add: pressure_phase.simps)
  have "pressure_phase (scenario_config k) (scenario_core k)
      = ([scenario_session ''A'' ''a.png'' k 0], snd (remove ''A'' (scenario_core k)))"
    using scenario_over [OF assms] stop
    by (simp add: pressure_phase.simps [of _ "scenario_core k"] scenario_evictable scenario_session_def)
  then show ?thesis
    by (simp add: sweep_def scenario_no_expiry scenario_after)
qed

subsection \<open>The accounting invariant and the order of eviction\<close>

lemma unique_ids_run_ops: "unique_ids (run_ops cfg ops)"
  using sound_run_ops [of cfg ops] by (simp add: sound_def)

lemma scenario_run_sweep:
  "0 < k \<Longrightarrow>
   run_ops (scenario_config k)
     [Store Written ''A'' ''a.png'' (300 * k) 0,
      Store Written ''B'' ''b.png'' (300 * k) 10,
      Store Written ''C'' ''c.png'' (300 * k) 20,
      Sweep 30]
   = snd (sweep (scenario_config k) 30 (scenario_core k))"
  by (simp add: run_ops_def scenario_core_def)

text \<open>
  Claim C1. For every sequence of operations on the storage core (a \<open>store\<close> with any
  outcome of its name check and its write, a sweep at any time, and the pins and releases
  of \<open>open\<close>), started from the empty core, and after every completed operation of the
  sequence, \<open>SizeAccountant.totalBytes()\<close> equals the sum of \<open>size_bytes\<close> over all
  artifacts present in the ArtifactRegistry.
\<close>

theorem accounting_invariant:
  "totalBytes (run_ops cfg (take n ops)) = registered_bytes (run_ops cfg (take n ops))"
  using sound_run_ops [of cfg "take n ops"] by (simp add: sound_def totalBytes_def)

theorem accounting_invariant_witness:
  "totalBytes (run_ops (scenario_config 1000)
       (take 4 [Store Written ''A'' ''a.png'' (300 * 1000) 0,
                Store Written ''B'' ''b.png'' (300 * 1000) 10,
                Store Written ''C'' ''c.png'' (300 * 1000) 20,
                Sweep 30])) = 600000
   \<and> registered_bytes (run_ops (scenario_config 1000)
       (take 4 [Store Written ''A'' ''a.png'' (300 * 1000) 0,
                Store Written ''B'' ''b.png'' (300 * 1000) 10,
                Store Written ''C'' ''c.png'' (300 * 1000) 20,
                Sweep 30])) = 600000"
proof -
  let ?ops = "[Store Written ''A'' ''a.png'' (300 * 1000) 0,
                Store Written ''B'' ''b.png'' (300 * 1000) 10,
                Store Written ''C'' ''c.png'' (300 * 1000) 20,
                Sweep 30]"
  have "run_ops (scenario_config 1000) (take 4 ?ops)
          = snd (sweep (scenario_config 1000) 30 (scenario_core 1000))"
    using scenario_run_sweep [of 1000] by simp
  then have "totalBytes (run_ops (scenario_config 1000) (take 4 ?ops)) = 600000"
    using scenario_sweep [of 1000] by (simp add: totalBytes_def)
  then show ?thesis
    using accounting_invariant [of "scenario_config 1000" 4 ?ops] by simp
qed

text \<open>
  Claim C5. The pressure phase, run on a registry with unique session identifiers
  (every reachable one, by \<open>unique_ids_run_ops\<close>), destroys exactly an initial stretch of
  the non-pinned sessions taken in ascending \<open>last_touched_at\<close> order: the sessions
  destroyed are the first ones of that list, in that order, none is pinned, and the
  resulting state is the one obtained by removing them. It stops as soon as usage is no
  longer over the warn threshold: before each destruction usage was still over it, and
  at the end usage is not over it or no non-pinned session remains. When no session is
  expired the whole sweep is this pressure phase. In the scenario (1 MB, 80 percent,
  sessions A, B, C of 300 KB touched at 0, 10, 20, sweep at 30, for any positive number of
  bytes in a kilobyte) usage is 900 KB, over the line; nothing is expired; exactly A is
  evicted, B and C remain and usage is 600 KB.
\<close>

theorem eviction_oldest_first:
  assumes "unique_ids s" and "pressure_phase cfg s = (evicted, s')"
  shows "evicted = take (length evicted) (evictable s)
    \<and> sorted (map last_touched_at evicted)
    \<and> (\<forall>x\<in>set evicted. pin_count x = 0 \<and> x \<in> set (sessions s))
    \<and> s' = destroy_all evicted s
    \<and> (\<forall>n<length evicted. isOverWarnThreshold cfg (destroy_all (take n evicted) s))
    \<and> (\<not> isOverWarnThreshold cfg s' \<or> evictable s' = [])
    \<and> ((\<forall>x\<in>set (sessions s). \<not> expired cfg now x) \<longrightarrow> sweep cfg now s = (evicted, s'))
    \<and> (0 < k \<longrightarrow>
          totalBytes (scenario_core k) = 900 * k
          \<and> isOverWarnThreshold (scenario_config k) (scenario_core k)
          \<and> expiry_phase (scenario_config k) 30 (scenario_core k) = scenario_core k
          \<and> map session_id (fst (sweep (scenario_config k) 30 (scenario_core k))) = [''A'']
          \<and> map session_id (sessions (snd (sweep (scenario_config k) 30 (scenario_core k))))
              = [''B'', ''C'']
          \<and> totalBytes (snd (sweep (scenario_config k) 30 (scenario_core k))) = 600 * k)"
proof -
  have spec: "evicted = take (length evicted) (evictable s)
    \<and> s' = destroy_all evicted s
    \<and> (\<not> isOverWarnThreshold cfg s' \<or> evictable s' = [])
    \<and> (\<forall>n<length evicted. isOverWarnThreshold cfg (destroy_all (take n evicted) s))"
    using pressure_phase_spec [OF assms(1), of cfg] unfolding assms(2) fst_conv snd_conv .
  then have prefix: "evicted = take (length evicted) (evictable s)"
    by blast
  have "sorted (map last_touched_at (take (length evicted) (evictable s)))"
    using sorted_evictable by (rule sorted_take_map)
  with prefix have ordered: "sorted (map last_touched_at evicted)"
    by simp
  have "set (take (length evicted) (evictable s)) \<subseteq> set (evictable s)"
    by (rule set_take_subset)
  with prefix have "set evicted \<subseteq> set (evictable s)"
    by simp
  then have unpinned: "\<forall>x\<in>set evicted. pin_count x = 0 \<and> x \<in> set (sessions s)"
    by (auto simp: evictable_def sessionsOrderedByLastTouched_def)
  have idle: "(\<forall>x\<in>set (sessions s). \<not> expired cfg now x) \<longrightarrow> sweep cfg now s = (evicted, s')"
    using assms(2) by (simp add: sweep_def expiry_phase_idle)
  have scenario: "0 < k \<longrightarrow>
          totalBytes (scenario_core k) = 900 * k
          \<and> isOverWarnThreshold (scenario_config k) (scenario_core k)
          \<and> expiry_phase (scenario_config k) 30 (scenario_core k) = scenario_core k
          \<and> map session_id (fst (sweep (scenario_config k) 30 (scenario_core k))) = [''A'']
          \<and> map session_id (sessions (snd (sweep (scenario_config k) 30 (scenario_core k))))
              = [''B'', ''C'']
          \<and> totalBytes (snd (sweep (scenario_config k) 30 (scenario_core k))) = 600 * k"
  proof
    assume k: "0 < k"
    have before: "totalBytes (scenario_core k) = 900 * k"
      by (simp add: totalBytes_def scenario_core_eq)
    show "totalBytes (scenario_core k) = 900 * k
          \<and> isOverWarnThreshold (scenario_config k) (scenario_core k)
          \<and> expiry_phase (scenario_config k) 30 (scenario_core k) = scenario_core k
          \<and> map session_id (fst (sweep (scenario_config k) 30 (scenario_core k))) = [''A'']
          \<and> map session_id (sessions (snd (sweep (scenario_config k) 30 (scenario_core k))))
              = [''B'', ''C'']
          \<and> totalBytes (snd (sweep (scenario_config k) 30 (scenario_core k))) = 600 * k"
      using before scenario_over [OF k]
      by (simp add: scenario_sweep [OF k] scenario_no_expiry totalBytes_def scenario_session_def)
  qed
  show ?thesis
    using spec ordered unpinned idle scenario by blast
qed

theorem eviction_oldest_first_witness:
  "unique_ids (scenario_core 1000)
   \<and> pressure_phase (scenario_config 1000) (scenario_core 1000)
       = ([scenario_session ''A'' ''a.png'' 1000 0],
          \<lparr>sessions = [scenario_session ''B'' ''b.png'' 1000 10,
                       scenario_session ''C'' ''c.png'' 1000 20],
           total = 600000\<rparr>)
   \<and> [scenario_session ''A'' ''a.png'' 1000 0] = take 1 (evictable (scenario_core 1000))
   \<and> pin_count (scenario_session ''A'' ''a.png'' 1000 0) = 0
   \<and> isOverWarnThreshold (scenario_config 1000) (scenario_core 1000)
   \<and> \<not> isOverWarnThreshold (scenario_config 1000)
         \<lparr>sessions = [scenario_session ''B'' ''b.png'' 1000 10,
                      scenario_session ''C'' ''c.png'' 1000 20],
          total = 600000\<rparr>
   \<and> \<not> expired (scenario_config 1000) 30 (scenario_session ''A'' ''a.png'' 1000 0)
   \<and> \<not> expired (scenario_config 1000) 30 (scenario_session ''B'' ''b.png'' 1000 10)
   \<and> \<not> expired (scenario_config 1000) 30 (scenario_session ''C'' ''c.png'' 1000 20)
   \<and> sweep (scenario_config 1000) 30 (scenario_core 1000)
       = ([scenario_session ''A'' ''a.png'' 1000 0],
          \<lparr>sessions = [scenario_session ''B'' ''b.png'' 1000 10,
                       scenario_session ''C'' ''c.png'' 1000 20],
           total = 600000\<rparr>)
   \<and> (0::int) < 1000
   \<and> totalBytes (scenario_core 1000) = 900000
   \<and> totalBytes (snd (sweep (scenario_config 1000) 30 (scenario_core 1000))) = 600000"
proof -
  let ?cfg = "scenario_config 1000"
  let ?s = "scenario_core 1000"
  let ?ev = "[scenario_session ''A'' ''a.png'' 1000 0]"
  let ?s' = "\<lparr>sessions = [scenario_session ''B'' ''b.png'' 1000 10,
                       scenario_session ''C'' ''c.png'' 1000 20],
           total = 600000\<rparr>"
  have ids: "unique_ids ?s"
    by (simp add: unique_ids_def scenario_core_eq scenario_session_def)
  have fresh: "\<forall>x\<in>set (sessions ?s). \<not> expired ?cfg 30 x"
    by (simp add: scenario_core_eq scenario_session_def expired_def scenario_config_def)
  have pressure: "pressure_phase ?cfg ?s = (?ev, ?s')"
    using scenario_sweep [of 1000] by (simp add: sweep_def scenario_no_expiry)
  have pos: "(0::int) < 1000"
    by simp
  have fresh3: "\<not> expired ?cfg 30 (scenario_session ''A'' ''a.png'' 1000 0)
      \<and> \<not> expired ?cfg 30 (scenario_session ''B'' ''b.png'' 1000 10)
      \<and> \<not> expired ?cfg 30 (scenario_session ''C'' ''c.png'' 1000 20)"
    by (simp add: scenario_session_def expired_def scenario_config_def)
  have under: "\<not> isOverWarnThreshold ?cfg ?s'"
    by (simp add: isOverWarnThreshold_def totalBytes_def scenario_config_def)
  note T = eviction_oldest_first [OF ids pressure, of 30 1000]
  from T have "?ev = take (length ?ev) (evictable ?s)"
    by blast
  then have c1: "?ev = take 1 (evictable ?s)"
    by simp
  from T have "\<forall>x\<in>set ?ev. pin_count x = 0 \<and> x \<in> set (sessions ?s)"
    by blast
  then have c2: "pin_count (scenario_session ''A'' ''a.png'' 1000 0) = 0"
    by simp
  from T have "\<forall>n<length ?ev. isOverWarnThreshold ?cfg (destroy_all (take n ?ev) ?s)"
    by blast
  then have "isOverWarnThreshold ?cfg (destroy_all (take 0 ?ev) ?s)"
    by simp
  then have c3: "isOverWarnThreshold ?cfg ?s"
    by (simp add: destroy_all_def)
  from T fresh have c4: "sweep ?cfg 30 ?s = (?ev, ?s')"
    by blast
  from T pos have "totalBytes ?s = 900 * 1000
      \<and> totalBytes (snd (sweep ?cfg 30 ?s)) = 600 * 1000"
    by blast
  then have c5: "totalBytes ?s = 900000" and c6: "totalBytes (snd (sweep ?cfg 30 ?s)) = 600000"
    by simp_all
  show ?thesis
    using ids pressure c1 c2 c3 under fresh3 c4 pos c5 c6 by blast
qed

end
